theory Spec2Isabelle
  imports Complex_Main "HOL-Library.Word"
begin

section \<open>Python strings and bytes\<close>

text \<open>
  A Python \<open>str\<close> is a sequence of Unicode code points, modelled as a list of naturals;
  \<open>bytes\<close> is a list of 8-bit words. \<open>lit\<close> reads an ASCII literal of the source.
\<close>

type_synonym py_str = "nat list"
type_synonym py_bytes = "8 word list"

definition lit :: "string \<Rightarrow> py_str" where
  "lit s = map of_char s"

text \<open>
  \<open>str.isspace\<close> on one code point: the table of CPython's \<open>_PyUnicode_IsWhitespace\<close>.
\<close>

definition isspace :: "nat \<Rightarrow> bool" where
  "isspace c \<longleftrightarrow>
     (9 \<le> c \<and> c \<le> 13) \<or> (28 \<le> c \<and> c \<le> 32) \<or> c = 133 \<or> c = 160 \<or> c = 5760 \<or>
     (8192 \<le> c \<and> c \<le> 8202) \<or> c = 8232 \<or> c = 8233 \<or> c = 8239 \<or> c = 8287 \<or>
     c = 12288"

text \<open>\<open>s.strip()\<close>: leading and trailing whitespace removed.\<close>

definition str_strip :: "py_str \<Rightarrow> py_str" where
  "str_strip s = rev (dropWhile isspace (rev (dropWhile isspace s)))"

text \<open>
  \<open>s.split(sep)\<close> for a one-character separator: a cut at every occurrence of the
  separator, empty pieces kept, so the result is never empty.
\<close>

fun str_split :: "py_str \<Rightarrow> nat \<Rightarrow> py_str list" where
  "str_split [] sep = [[]]"
| "str_split (c # cs) sep =
     (if c = sep then [] # str_split cs sep
      else (case str_split cs sep of [] \<Rightarrow> [[c]] | t # ts \<Rightarrow> (c # t) # ts))"

text \<open>
  \<open>s.encode("ascii", "ignore")\<close>: a code point below 128 becomes its byte, any other
  is left out.
\<close>

definition encode_ascii_ignore :: "py_str \<Rightarrow> py_bytes" where
  "encode_ascii_ignore s = map of_nat (filter (\<lambda>c. c < 128) s)"

text \<open>
  Iterating over a text file: the lines of the decoded content (line ends already
  translated to code point 10), each with its newline, the last one without when the
  content does not end in one.
\<close>

fun file_lines :: "py_str \<Rightarrow> py_str list" where
  "file_lines [] = []"
| "file_lines (c # cs) =
     (if c = 10 then [c] # file_lines cs
      else (case file_lines cs of [] \<Rightarrow> [[c]] | l # ls \<Rightarrow> (c # l) # ls))"

text \<open>\<open>islice(it, start, None)\<close>: the iterator without its first \<open>start\<close> items.\<close>

definition islice :: "'a list \<Rightarrow> nat \<Rightarrow> 'a list" where
  "islice it start = drop start it"

section \<open>Errors and the external libraries\<close>

datatype error =
  FileNotFoundError | UnicodeDecodeError | OSError | ValueError | IndexError | RuntimeError

text \<open>
  A numpy array: element type, shape and the elements in row-major order. The only
  floats the program stores are 0.0 and 1.0, which both element types hold exactly.
\<close>

datatype dtype = Float64 | Float32

record ndarray =
  dtype :: dtype
  shape :: "nat list"
  data :: "real list"

text \<open>\<open>np.zeros(shape)\<close>: a float64 array of zeros.\<close>

definition np_zeros :: "nat list \<Rightarrow> ndarray" where
  "np_zeros sh = \<lparr>dtype = Float64, shape = sh, data = replicate (prod_list sh) 0\<rparr>"

text \<open>
  \<open>np.array(lst, dtype=dtype)\<close> on a list of arrays: the empty list gives the
  one-dimensional array of shape \<open>(0,)\<close>; arrays of one common shape are stacked along
  a new first axis; arrays of different shapes raise ValueError.
\<close>

definition np_array :: "ndarray list \<Rightarrow> dtype \<Rightarrow> error + ndarray" where
  "np_array lst dt =
     (case lst of
        [] \<Rightarrow> Inr \<lparr>dtype = dt, shape = [0], data = []\<rparr>
      | a # as \<Rightarrow>
          if list_all (\<lambda>b. shape b = shape a) as
          then Inr \<lparr>dtype = dt, shape = length lst # shape a, data = concat (map data lst)\<rparr>
          else Inl ValueError)"

text \<open>
  The chemistry toolkit is a parameter: \<open>MolFromSmiles\<close> returns a molecule, \<open>None\<close>
  for an encoding it rejects, or raises; \<open>GetMorganFingerprintAsBitVect mol radius nBits\<close>
  returns a bit vector or raises.
\<close>

record 'mol rdkit =
  MolFromSmiles :: "py_str \<Rightarrow> error + 'mol option"
  GetMorganFingerprintAsBitVect :: "'mol \<Rightarrow> nat \<Rightarrow> nat \<Rightarrow> error + bool list"

text \<open>
  \<open>DataStructs.ConvertToNumpyArray(fp, arr)\<close>: the array is resized to the number of
  bits of the vector and element \<open>i\<close> is set to bit \<open>i\<close>.
\<close>

definition ConvertToNumpyArray :: "bool list \<Rightarrow> ndarray \<Rightarrow> ndarray" where
  "ConvertToNumpyArray fp arr =
     arr\<lparr>shape := [length fp], data := map (\<lambda>b. if b then 1 else 0) fp\<rparr>"

section \<open>The record loop of generate_fingerprints\<close>

type_synonym columns = "ndarray list \<times> py_bytes list \<times> py_bytes list"

text \<open>The body of the \<open>for\<close> loop on one line, on the three lists accumulated so far.\<close>

definition process_line :: "'mol rdkit \<Rightarrow> py_str \<Rightarrow> columns \<Rightarrow> error + columns" where
  "process_line rd line acc =
     (case acc of (fp_list, smiles_list, name_list) \<Rightarrow>
        let toks = str_split (str_strip line) 32 in
        if length toks \<ge> 2 then
          let smiles = toks ! 0; name = toks ! 1 in
          (case MolFromSmiles rd smiles of
             Inl e \<Rightarrow> Inl e
           | Inr None \<Rightarrow> Inr acc
           | Inr (Some mol) \<Rightarrow>
               (case GetMorganFingerprintAsBitVect rd mol 3 1024 of
                  Inl e \<Rightarrow> Inl e
                | Inr fp \<Rightarrow>
                    let arr = ConvertToNumpyArray fp (np_zeros [1]) in
                    Inr (fp_list @ [arr],
                         smiles_list @ [encode_ascii_ignore smiles],
                         name_list @ [encode_ascii_ignore name])))
        else Inr acc)"

fun for_lines :: "'mol rdkit \<Rightarrow> py_str list \<Rightarrow> columns \<Rightarrow> error + columns" where
  "for_lines rd [] acc = Inr acc"
| "for_lines rd (line # rest) acc =
     (case process_line rd line acc of
        Inl e \<Rightarrow> Inl e
      | Inr acc' \<Rightarrow> for_lines rd rest acc')"

section \<open>Files, handles, clock and standard output\<close>

text \<open>
  An HDF5 file is the list of its named datasets, in the order they were created. A
  dataset is a numeric array or, for the variable-length byte-string type, a shape and
  its entries.
\<close>

datatype dataset = NumData ndarray | VlenData "nat list" "py_bytes list"

type_synonym h5file = "(string \<times> dataset) list"

datatype content = TextFile py_str | H5File h5file

datatype mode = ReadText | WriteH5

datatype out = Line py_str | Elapsed string real

text \<open>
  The world the program runs in: the files by path, the open handles (a handle is its
  path and mode), what was printed to standard output, the clock (its \<open>k\<close>-th reading)
  and the number of readings taken, and the faults of the environment: which paths
  cannot be created and for which datasets the write of the data fails.
\<close>

record world =
  files :: "py_str \<Rightarrow> content option"
  handles :: "(py_str \<times> mode) list"
  stdout :: "out list"
  clock :: "nat \<Rightarrow> real"
  ticks :: nat
  unwritable :: "py_str \<Rightarrow> bool"
  write_fault :: "string \<Rightarrow> bool"

type_synonym 'a io = "world \<Rightarrow> (error + 'a) \<times> world"

text \<open>Sequencing: an exception of the first action ends the whole.\<close>

definition bind_io :: "'a io \<Rightarrow> ('a \<Rightarrow> 'b io) \<Rightarrow> 'b io" where
  "bind_io m k w = (case m w of (Inl e, w') \<Rightarrow> (Inl e, w') | (Inr x, w') \<Rightarrow> k x w')"

definition py_time :: "world \<Rightarrow> real \<times> world" where
  "py_time w = (clock w (ticks w), w\<lparr>ticks := Suc (ticks w)\<rparr>)"

definition py_print :: "out \<Rightarrow> world \<Rightarrow> world" where
  "py_print x w = w\<lparr>stdout := stdout w @ [x]\<rparr>"

text \<open>
  The decorator \<open>timing\<close>: the clock is read before and after the call and the elapsed
  time is printed with the function's name. There is no \<open>try\<close>: an exception of the
  call leaves the wrapper at once.
\<close>

definition timing :: "string \<Rightarrow> 'a io \<Rightarrow> 'a io" where
  "timing name f w =
     (case py_time w of (start, w1) \<Rightarrow>
        (case f w1 of
           (Inl e, w2) \<Rightarrow> (Inl e, w2)
         | (Inr result, w2) \<Rightarrow>
             (case py_time w2 of (finish, w3) \<Rightarrow>
                (Inr result, py_print (Elapsed name (finish - start)) w3))))"

text \<open>
  \<open>open(path)\<close>: a text handle for reading; a missing path raises. Iterating the handle
  decodes the content; an HDF5 container is not text (its first byte is 0x89) and
  raises the decoding error.
\<close>

definition py_open :: "py_str \<Rightarrow> (py_str \<times> mode) io" where
  "py_open path w =
     (case files w path of
        None \<Rightarrow> (Inl FileNotFoundError, w)
      | Some f \<Rightarrow> (Inr (path, ReadText), w\<lparr>handles := (path, ReadText) # handles w\<rparr>))"

definition read_lines :: "py_str \<times> mode \<Rightarrow> world \<Rightarrow> error + py_str list" where
  "read_lines h w =
     (case files w (fst h) of
        Some (TextFile s) \<Rightarrow> Inr (file_lines s)
      | Some (H5File d) \<Rightarrow> Inl UnicodeDecodeError
      | None \<Rightarrow> Inl FileNotFoundError)"

text \<open>
  \<open>h5py.File(path, 'w')\<close>: creates the file, truncating an existing one; raises
  OSError where the path cannot be created.
\<close>

definition h5py_File :: "py_str \<Rightarrow> (py_str \<times> mode) io" where
  "h5py_File path w =
     (if unwritable w path then (Inl OSError, w)
      else (Inr (path, WriteH5),
            w\<lparr>files := (files w)(path \<mapsto> H5File []),
              handles := (path, WriteH5) # handles w\<rparr>))"

text \<open>
  h5py makes a dataset in two steps. First it is created in the file under its name,
  with its shape and type and no data (read back, it holds fill values: zeros, empty
  byte strings); a name already there raises ValueError. Then the data are written; a
  write fault of the environment raises OSError and leaves the dataset as created.
\<close>

definition link_dataset :: "py_str \<times> mode \<Rightarrow> string \<Rightarrow> dataset \<Rightarrow> unit io" where
  "link_dataset h name d w =
     (case files w (fst h) of
        Some (H5File ds) \<Rightarrow>
          if name \<in> set (map fst ds) then (Inl ValueError, w)
          else (Inr (), w\<lparr>files := (files w)(fst h \<mapsto> H5File (ds @ [(name, d)]))\<rparr>)
      | _ \<Rightarrow> (Inl OSError, w))"

definition write_dataset :: "py_str \<times> mode \<Rightarrow> string \<Rightarrow> dataset \<Rightarrow> unit io" where
  "write_dataset h name d w =
     (case files w (fst h) of
        Some (H5File ds) \<Rightarrow>
          if write_fault w name then (Inl OSError, w)
          else (Inr (),
                w\<lparr>files := (files w)(fst h \<mapsto>
                   H5File (map (\<lambda>(n, x). if n = name then (n, d) else (n, x)) ds))\<rparr>)
      | _ \<Rightarrow> (Inl OSError, w))"

text \<open>\<open>h5f.create_dataset(name, data=array)\<close>: shape and type are those of the array.\<close>

definition create_dataset :: "py_str \<times> mode \<Rightarrow> string \<Rightarrow> ndarray \<Rightarrow> unit io" where
  "create_dataset h name arr =
     bind_io (link_dataset h name (NumData (arr\<lparr>data := replicate (length (data arr)) 0\<rparr>)))
       (\<lambda>_. write_dataset h name (NumData arr))"

text \<open>
  \<open>h5f.create_dataset(name, shape, dt, data)\<close> with the variable-length byte type and a
  list of byte strings: the list is an array of shape \<open>(len(data),)\<close>, and a shape with a
  different number of elements raises ValueError before anything is created. The
  entries are converted when they are written, after the dataset is created: a byte
  string that holds the byte 0 raises ValueError there.
\<close>

definition create_dataset_vlen ::
  "py_str \<times> mode \<Rightarrow> string \<Rightarrow> nat list \<Rightarrow> py_bytes list \<Rightarrow> unit io" where
  "create_dataset_vlen h name sh xs =
     (if prod_list sh \<noteq> length xs then (\<lambda>w. (Inl ValueError, w))
      else bind_io (link_dataset h name (VlenData sh (replicate (length xs) [])))
             (\<lambda>_. if list_ex (\<lambda>x. 0 \<in> set x) xs then (\<lambda>w. (Inl ValueError, w))
                  else write_dataset h name (VlenData sh xs)))"

definition h5_close :: "py_str \<times> mode \<Rightarrow> unit io" where
  "h5_close h w = (Inr (), w\<lparr>handles := remove1 h (handles w)\<rparr>)"

section \<open>The program\<close>

definition make_np_array :: "ndarray list \<Rightarrow> dtype \<Rightarrow> ndarray io" where
  "make_np_array lst dt = timing ''make_np_array'' (\<lambda>w. (np_array lst dt, w))"

definition save_data ::
  "ndarray \<Rightarrow> py_bytes list \<Rightarrow> py_bytes list \<Rightarrow> py_str \<Rightarrow> unit io" where
  "save_data fp_array smiles_list name_list outfile_name =
     timing ''save_data''
       (bind_io (h5py_File outfile_name) (\<lambda>h5f.
        bind_io (create_dataset h5f ''fp_list'' fp_array) (\<lambda>_.
        bind_io (create_dataset_vlen h5f ''smiles_list'' [length smiles_list, 1] smiles_list) (\<lambda>_.
        bind_io (create_dataset_vlen h5f ''name_list'' [length name_list, 1] name_list) (\<lambda>_.
        h5_close h5f)))))"

text \<open>
  The input handle is never closed by the program. The progress bar of \<open>tqdm\<close> goes to
  standard error and is left out.
\<close>

definition generate_fingerprints :: "'mol rdkit \<Rightarrow> py_str \<Rightarrow> columns io" where
  "generate_fingerprints rd infile_name =
     timing ''generate_fingerprints''
       (bind_io (py_open infile_name) (\<lambda>ifs w.
          (case read_lines ifs w of
             Inl e \<Rightarrow> (Inl e, w)
           | Inr ls \<Rightarrow> (for_lines rd (islice ls 1) ([], [], []), w))))"

definition main :: "'mol rdkit \<Rightarrow> py_str \<Rightarrow> py_str \<Rightarrow> unit io" where
  "main rd input_smiles_file output_fp_file =
     timing ''main''
       (bind_io (generate_fingerprints rd input_smiles_file)
          (\<lambda>(fp_list, smiles_list, name_list).
             let outfile_name = output_fp_file in
             bind_io (make_np_array fp_list Float32) (\<lambda>fp_array.
               save_data fp_array smiles_list name_list outfile_name)))"

text \<open>
  The script: how the process ends (an exit status, or the traceback of an uncaught
  exception) and the world it leaves. \<open>sys.argv[0]\<close> on an empty \<open>argv\<close> raises.
\<close>

datatype outcome = Exit nat | Traceback error

definition script :: "'mol rdkit \<Rightarrow> py_str list \<Rightarrow> world \<Rightarrow> outcome \<times> world" where
  "script rd argv w =
     (if length argv \<noteq> 3 then
        (case argv of
           [] \<Rightarrow> (Traceback IndexError, w)
         | prog # _ \<Rightarrow>
             (Exit 1, py_print (Line (lit ''usage: '' @ prog @ lit '' infile.smi outfile.h5'')) w))
      else
        (case main rd (argv ! 1) (argv ! 2) w of
           (Inl e, w') \<Rightarrow> (Traceback e, w')
         | (Inr u, w') \<Rightarrow> (Exit 0, w')))"

section \<open>Notions used in the statements\<close>

text \<open>The tokens of a line, as the loop body computes them.\<close>

definition tokens :: "py_str \<Rightarrow> py_str list" where
  "tokens line = str_split (str_strip line) 32"

text \<open>
  A line gives a record when it has at least two tokens and the parser returns a
  molecule for the first.
\<close>

definition accepted :: "'mol rdkit \<Rightarrow> py_str \<Rightarrow> bool" where
  "accepted rd line \<longleftrightarrow>
     2 \<le> length (tokens line) \<and>
     (case MolFromSmiles rd (tokens line ! 0) of Inr (Some mol) \<Rightarrow> True | _ \<Rightarrow> False)"

text \<open>The fingerprint row of a line: the radius-3, 1024-bit vector of its first token.\<close>

definition fingerprint_of :: "'mol rdkit \<Rightarrow> py_str \<Rightarrow> ndarray option" where
  "fingerprint_of rd line =
     (case MolFromSmiles rd (tokens line ! 0) of
        Inr (Some mol) \<Rightarrow>
          (case GetMorganFingerprintAsBitVect rd mol 3 1024 of
             Inr fp \<Rightarrow> Some (ConvertToNumpyArray fp (np_zeros [1]))
           | Inl e \<Rightarrow> None)
      | _ \<Rightarrow> None)"

text \<open>
  A toolkit and a world for the examples: the parser rejects \<open>notasmiles\<close> and takes
  any other token, a molecule being its encoding, and bit \<open>i\<close> of a fingerprint says
  whether code point \<open>i\<close> occurs in the encoding; the input has a header,
  two good records and a bad one.
\<close>

definition demo_bits :: "py_str \<Rightarrow> nat \<Rightarrow> bool list" where
  "demo_bits m n = map (\<lambda>i. i \<in> set m) [0..<n]"

definition demo_rdkit :: "py_str rdkit" where
  "demo_rdkit =
     \<lparr>MolFromSmiles = (\<lambda>s. if s = lit ''notasmiles'' then Inr None else Inr (Some s)),
      GetMorganFingerprintAsBitVect = (\<lambda>m r n. Inr (demo_bits m n))\<rparr>"

definition demo_text :: py_str where
  "demo_text = lit ''header'' @ [10] @ lit ''CCO ethanol'' @ [10] @
               lit ''notasmiles bad'' @ [10] @ lit ''CC methane'' @ [10]"

definition demo_world :: "py_str \<Rightarrow> world" where
  "demo_world text =
     \<lparr>files = [lit ''in.smi'' \<mapsto> TextFile text], handles = [], stdout = [],
      clock = real, ticks = 0, unwritable = (\<lambda>p. False), write_fault = (\<lambda>n. False)\<rparr>"

text \<open>The example world with an empty input and a fault on the write of one dataset.\<close>

definition demo_fault_world :: "string \<Rightarrow> world" where
  "demo_fault_world name = (demo_world [])\<lparr>write_fault := (\<lambda>n. n = name)\<rparr>"

section \<open>Strings: splitting, stripping, encoding\<close>

lemma str_split_nonempty: "str_split s sep \<noteq> []"
  by (induction s) (auto split: list.splits)

lemma str_split_no_sep: "sep \<notin> set s \<Longrightarrow> str_split s sep = [s]"
  by (induction s) auto

lemma str_split_append:
  "sep \<notin> set a \<Longrightarrow> str_split (a @ sep # b) sep = a # str_split b sep"
  by (induction a) auto

lemma str_split_hd: "hd (str_split s sep) = takeWhile (\<lambda>c. c \<noteq> sep) s"
  by (induction s) (auto split: list.splits simp: str_split_nonempty)

lemma isspace_10: "isspace 10"
  by (simp add: isspace_def)

lemma dropWhile_id: "xs \<noteq> [] \<Longrightarrow> \<not> P (hd xs) \<Longrightarrow> dropWhile P xs = xs"
  by (cases xs) auto

lemma str_strip_trailing:
  assumes "s \<noteq> []" "\<not> isspace (hd s)" "\<not> isspace (last s)" "list_all isspace t"
  shows "str_strip (s @ t) = s"
proof -
  have 1: "dropWhile isspace (s @ t) = s @ t"
    using assms by (cases s) auto
  have "dropWhile isspace (rev t @ rev s) = dropWhile isspace (rev s)"
    using assms by (intro dropWhile_append2) (simp add: list_all_iff)
  also have "\<dots> = rev s"
    using assms by (intro dropWhile_id) (simp_all add: hd_rev)
  finally have 2: "dropWhile isspace (rev t @ rev s) = rev s" .
  show ?thesis by (simp add: str_strip_def 1 2)
qed

lemma str_strip_two_fields:
  assumes a: "a \<noteq> []" "list_all (\<lambda>c. \<not> isspace c) a"
      and b: "b \<noteq> []" "list_all (\<lambda>c. \<not> isspace c) b"
  shows "str_strip (a @ replicate k 32 @ b @ [10]) = a @ replicate k 32 @ b"
proof -
  have "str_strip ((a @ replicate k 32 @ b) @ [10]) = a @ replicate k 32 @ b"
  proof (rule str_strip_trailing)
    show "a @ replicate k 32 @ b \<noteq> []" using a by simp
    show "\<not> isspace (hd (a @ replicate k 32 @ b))" using a by (cases a) auto
    show "\<not> isspace (last (a @ replicate k 32 @ b))" using b by (simp add: list_all_iff)
    show "list_all isspace [10]" by (simp add: isspace_10)
  qed
  then show ?thesis by simp
qed

lemma unat_encode_ascii_ignore:
  "map unat (encode_ascii_ignore s) = filter (\<lambda>c. c < 128) s"
  by (induction s) (auto simp: encode_ascii_ignore_def unat_of_nat)

section \<open>One line of the loop\<close>

lemma process_line_skip:
  "length (str_split (str_strip line) 32) < 2 \<Longrightarrow> process_line rd line acc = Inr acc"
  by (simp add: process_line_def split: prod.splits)

lemma process_line_fields:
  assumes "str_strip line = a @ 32 # b" and "32 \<notin> set a"
  shows "process_line rd line (f, s, n) =
     (case MolFromSmiles rd a of
        Inl e \<Rightarrow> Inl e
      | Inr None \<Rightarrow> Inr (f, s, n)
      | Inr (Some mol) \<Rightarrow>
          (case GetMorganFingerprintAsBitVect rd mol 3 1024 of
             Inl e \<Rightarrow> Inl e
           | Inr fp \<Rightarrow>
               Inr (f @ [ConvertToNumpyArray fp (np_zeros [1])],
                    s @ [encode_ascii_ignore a],
                    n @ [encode_ascii_ignore (takeWhile (\<lambda>c. c \<noteq> 32) b)])))"
proof -
  have sp: "str_split (str_strip line) 32 = a # str_split b 32"
    using assms by (simp add: str_split_append)
  obtain t ts where b: "str_split b 32 = t # ts"
    using str_split_nonempty[of b 32] by (cases "str_split b 32") auto
  have t: "t = takeWhile (\<lambda>c. c \<noteq> 32) b"
    using str_split_hd[of b 32] b by simp
  show ?thesis
    by (simp add: process_line_def sp b t Let_def split: sum.splits option.splits)
qed

lemma process_line_accepted:
  assumes "2 \<le> length (tokens line)"
      and "MolFromSmiles rd (tokens line ! 0) = Inr (Some mol)"
      and "GetMorganFingerprintAsBitVect rd mol 3 1024 = Inr fp"
  shows "process_line rd line (f, s, n) =
           Inr (f @ [ConvertToNumpyArray fp (np_zeros [1])],
                s @ [encode_ascii_ignore (tokens line ! 0)],
                n @ [encode_ascii_ignore (tokens line ! 1)])"
  using assms by (simp add: process_line_def tokens_def Let_def)

section \<open>The lines of a file\<close>

lemma file_lines_header:
  "10 \<notin> set h \<Longrightarrow> file_lines (h @ 10 # rest) = (h @ [10]) # file_lines rest"
  by (induction h) auto

section \<open>What each function returns and what it leaves in the world\<close>

lemma bind_io_fst:
  "fst (bind_io m k w) = (case fst (m w) of Inl e \<Rightarrow> Inl e | Inr x \<Rightarrow> fst (k x (snd (m w))))"
  by (simp add: bind_io_def split: prod.splits sum.splits)

lemma bind_io_snd:
  "snd (bind_io m k w) = (case fst (m w) of Inl e \<Rightarrow> snd (m w) | Inr x \<Rightarrow> snd (k x (snd (m w))))"
  by (simp add: bind_io_def split: prod.splits sum.splits)

lemma timing_fst: "fst (timing name f w) = fst (f (w\<lparr>ticks := Suc (ticks w)\<rparr>))"
  by (simp add: timing_def py_time_def split: prod.splits sum.splits)

lemma timing_files: "files (snd (timing name f w)) = files (snd (f (w\<lparr>ticks := Suc (ticks w)\<rparr>)))"
  by (simp add: timing_def py_time_def py_print_def split: prod.splits sum.splits)

lemma timing_handles:
  "handles (snd (timing name f w)) = handles (snd (f (w\<lparr>ticks := Suc (ticks w)\<rparr>)))"
  by (simp add: timing_def py_time_def py_print_def split: prod.splits sum.splits)

lemma timing_unwritable:
  "unwritable (snd (timing name f w)) = unwritable (snd (f (w\<lparr>ticks := Suc (ticks w)\<rparr>)))"
  by (simp add: timing_def py_time_def py_print_def split: prod.splits sum.splits)

lemma timing_write_fault:
  "write_fault (snd (timing name f w)) = write_fault (snd (f (w\<lparr>ticks := Suc (ticks w)\<rparr>)))"
  by (simp add: timing_def py_time_def py_print_def split: prod.splits sum.splits)

lemmas timing_simps =
  timing_fst timing_files timing_handles timing_unwritable timing_write_fault

lemma generate_fingerprints_fst:
  "fst (generate_fingerprints rd infile w) =
     (case files w infile of
        None \<Rightarrow> Inl FileNotFoundError
      | Some (TextFile c) \<Rightarrow> for_lines rd (drop 1 (file_lines c)) ([], [], [])
      | Some (H5File d) \<Rightarrow> Inl UnicodeDecodeError)"
  by (simp add: generate_fingerprints_def timing_simps bind_io_fst py_open_def read_lines_def
      islice_def split: option.splits content.splits sum.splits)

lemma generate_fingerprints_files: "files (snd (generate_fingerprints rd infile w)) = files w"
  by (simp add: generate_fingerprints_def timing_simps bind_io_snd py_open_def read_lines_def
      split: option.splits content.splits sum.splits)

lemma generate_fingerprints_unwritable:
  "unwritable (snd (generate_fingerprints rd infile w)) = unwritable w"
  by (simp add: generate_fingerprints_def timing_simps bind_io_snd py_open_def read_lines_def
      split: option.splits content.splits sum.splits)

lemma generate_fingerprints_write_fault:
  "write_fault (snd (generate_fingerprints rd infile w)) = write_fault w"
  by (simp add: generate_fingerprints_def timing_simps bind_io_snd py_open_def read_lines_def
      split: option.splits content.splits sum.splits)

lemma generate_fingerprints_handles:
  "handles (snd (generate_fingerprints rd infile w)) =
     (case files w infile of None \<Rightarrow> handles w | Some c \<Rightarrow> (infile, ReadText) # handles w)"
  by (simp add: generate_fingerprints_def timing_simps bind_io_snd py_open_def read_lines_def
      split: option.splits content.splits sum.splits)

lemma make_np_array_fst: "fst (make_np_array lst dt w) = np_array lst dt"
  by (simp add: make_np_array_def timing_simps)

lemma make_np_array_world:
  "files (snd (make_np_array lst dt w)) = files w"
  "handles (snd (make_np_array lst dt w)) = handles w"
  "unwritable (snd (make_np_array lst dt w)) = unwritable w"
  "write_fault (snd (make_np_array lst dt w)) = write_fault w"
  by (simp_all add: make_np_array_def timing_simps)

lemmas h5_defs =
  h5py_File_def create_dataset_def create_dataset_vlen_def link_dataset_def write_dataset_def
  h5_close_def

text \<open>
  The outcome of \<open>save_data\<close>: the first of its steps that raises decides, in the order
  of the code.
\<close>

lemma save_data_fst:
  "fst (save_data arr s n out w) =
     (if unwritable w out then Inl OSError
      else if write_fault w ''fp_list'' then Inl OSError
      else if list_ex (\<lambda>x. 0 \<in> set x) s then Inl ValueError
      else if write_fault w ''smiles_list'' then Inl OSError
      else if list_ex (\<lambda>x. 0 \<in> set x) n then Inl ValueError
      else if write_fault w ''name_list'' then Inl OSError
      else Inr ())"
  by (simp add: save_data_def timing_simps bind_io_fst bind_io_snd h5_defs)

lemma save_data_files:
  "files (snd (save_data arr s n out w)) =
     (if unwritable w out then files w
      else (files w)(out \<mapsto> H5File
        (if write_fault w ''fp_list''
         then [(''fp_list'', NumData (arr\<lparr>data := replicate (length (data arr)) 0\<rparr>))]
         else if list_ex (\<lambda>x. 0 \<in> set x) s \<or> write_fault w ''smiles_list''
         then [(''fp_list'', NumData arr),
               (''smiles_list'', VlenData [length s, 1] (replicate (length s) []))]
         else if list_ex (\<lambda>x. 0 \<in> set x) n \<or> write_fault w ''name_list''
         then [(''fp_list'', NumData arr),
               (''smiles_list'', VlenData [length s, 1] s),
               (''name_list'', VlenData [length n, 1] (replicate (length n) []))]
         else [(''fp_list'', NumData arr),
               (''smiles_list'', VlenData [length s, 1] s),
               (''name_list'', VlenData [length n, 1] n)])))"
  by (simp add: save_data_def timing_simps bind_io_fst bind_io_snd h5_defs)

lemma save_data_handles:
  "handles (snd (save_data arr s n out w)) =
     (if unwritable w out \<or> fst (save_data arr s n out w) = Inr ()
      then handles w else (out, WriteH5) # handles w)"
  by (simp add: save_data_fst)
     (simp add: save_data_def timing_simps bind_io_fst bind_io_snd h5_defs)

lemma save_data_env:
  "unwritable (snd (save_data arr s n out w)) = unwritable w"
  "write_fault (snd (save_data arr s n out w)) = write_fault w"
  by (simp_all add: save_data_def timing_simps bind_io_fst bind_io_snd h5_defs)

lemma main_fst:
  "fst (main rd infile out w) =
     (case fst (generate_fingerprints rd infile w) of
        Inl e \<Rightarrow> Inl e
      | Inr (fps, smis, names) \<Rightarrow>
          (case np_array fps Float32 of
             Inl e \<Rightarrow> Inl e
           | Inr arr \<Rightarrow> fst (save_data arr smis names out w)))"
  by (simp add: main_def timing_simps bind_io_fst bind_io_snd generate_fingerprints_fst
      generate_fingerprints_unwritable generate_fingerprints_write_fault
      make_np_array_fst make_np_array_world save_data_fst
      split: option.splits content.splits sum.splits prod.splits)

lemma main_files:
  "files (snd (main rd infile out w)) =
     (case fst (generate_fingerprints rd infile w) of
        Inl e \<Rightarrow> files w
      | Inr (fps, smis, names) \<Rightarrow>
          (case np_array fps Float32 of
             Inl e \<Rightarrow> files w
           | Inr arr \<Rightarrow> files (snd (save_data arr smis names out w))))"
  by (simp add: main_def timing_simps bind_io_fst bind_io_snd generate_fingerprints_fst
      generate_fingerprints_files
      generate_fingerprints_unwritable generate_fingerprints_write_fault
      make_np_array_fst make_np_array_world save_data_files
      split: option.splits content.splits sum.splits prod.splits)

lemma main_handles:
  "handles (snd (main rd infile out w)) =
     (case fst (generate_fingerprints rd infile w) of
        Inl e \<Rightarrow> handles (snd (generate_fingerprints rd infile w))
      | Inr (fps, smis, names) \<Rightarrow>
          (case np_array fps Float32 of
             Inl e \<Rightarrow> handles (snd (generate_fingerprints rd infile w))
           | Inr arr \<Rightarrow>
               (if fst (save_data arr smis names out w) = Inr () \<or> unwritable w out
                then handles (snd (generate_fingerprints rd infile w))
                else (out, WriteH5) # handles (snd (generate_fingerprints rd infile w)))))"
  by (simp add: main_def timing_simps bind_io_fst bind_io_snd generate_fingerprints_fst
      generate_fingerprints_handles
      generate_fingerprints_unwritable generate_fingerprints_write_fault
      make_np_array_fst make_np_array_world save_data_handles save_data_fst
      split: option.splits content.splits sum.splits prod.splits)

section \<open>The loop over the lines\<close>

lemma process_line_result:
  assumes "process_line rd line (f, s, n) = Inr acc"
  shows "if accepted rd line
         then \<exists>arr. fingerprint_of rd line = Some arr \<and>
                acc = (f @ [arr], s @ [encode_ascii_ignore (tokens line ! 0)],
                       n @ [encode_ascii_ignore (tokens line ! 1)])
         else acc = (f, s, n)"
  using assms
  by (auto simp: process_line_def accepted_def fingerprint_of_def tokens_def Let_def
      split: if_splits sum.splits option.splits)

lemma for_lines_columns:
  assumes "for_lines rd ls (f, s, n) = Inr (f', s', n')"
  shows "map Some f' = map Some f @ map (fingerprint_of rd) (filter (accepted rd) ls) \<and>
         s' = s @ map (\<lambda>l. encode_ascii_ignore (tokens l ! 0)) (filter (accepted rd) ls) \<and>
         n' = n @ map (\<lambda>l. encode_ascii_ignore (tokens l ! 1)) (filter (accepted rd) ls)"
  using assms
proof (induction ls arbitrary: f s n)
  case Nil
  then show ?case by simp
next
  case (Cons l ls)
  from Cons.prems obtain acc where pl: "process_line rd l (f, s, n) = Inr acc"
    and rest: "for_lines rd ls acc = Inr (f', s', n')"
    by (auto split: sum.splits)
  show ?case
  proof (cases "accepted rd l")
    case True
    with process_line_result[OF pl] obtain arr where fp: "fingerprint_of rd l = Some arr"
      and acc: "acc = (f @ [arr], s @ [encode_ascii_ignore (tokens l ! 0)],
                       n @ [encode_ascii_ignore (tokens l ! 1)])"
      by auto
    from Cons.IH[OF rest[unfolded acc]] show ?thesis
      using True fp by simp
  next
    case False
    with process_line_result[OF pl] have acc: "acc = (f, s, n)"
      by simp
    from Cons.IH[OF rest[unfolded acc]] show ?thesis
      using False by simp
  qed
qed

text \<open>When the toolkit raises on no line, the loop returns.\<close>

lemma for_lines_returns:
  assumes "\<forall>l \<in> set ls. \<forall>e. MolFromSmiles rd (tokens l ! 0) \<noteq> Inl e"
      and "\<forall>mol e. GetMorganFingerprintAsBitVect rd mol 3 1024 \<noteq> Inl e"
  shows "\<exists>cols. for_lines rd ls acc = Inr cols"
  using assms(1)
proof (induction ls arbitrary: acc)
  case Nil
  show ?case by (cases acc) auto
next
  case (Cons l ls)
  obtain f s n where acc: "acc = (f, s, n)"
    using prod_cases3 by blast
  have "process_line rd l acc \<noteq> Inl e" for e
    using Cons.prems assms(2) unfolding acc
    by (auto simp: process_line_def tokens_def Let_def split: sum.splits option.splits)
  then obtain acc' where "process_line rd l acc = Inr acc'"
    by (cases "process_line rd l acc") auto
  then show ?case
    using Cons by simp
qed

lemma generate_fingerprints_returns:
  assumes "files w infile = Some (TextFile c)"
      and "\<forall>s e. MolFromSmiles rd s \<noteq> Inl e"
      and "\<forall>mol e. GetMorganFingerprintAsBitVect rd mol 3 1024 \<noteq> Inl e"
  shows "\<exists>cols. fst (generate_fingerprints rd infile w) = Inr cols"
  using for_lines_returns[of "drop 1 (file_lines c)" rd "([], [], [])"] assms
  by (simp add: generate_fingerprints_fst)

lemma main_env:
  "unwritable (snd (main rd infile out w)) = unwritable w"
  "write_fault (snd (main rd infile out w)) = write_fault w"
  by (simp_all add: main_def timing_simps bind_io_fst bind_io_snd
      generate_fingerprints_unwritable generate_fingerprints_write_fault
      make_np_array_world save_data_env split: sum.splits prod.splits)

lemma main_files_other:
  "p \<noteq> out \<Longrightarrow> files (snd (main rd infile out w)) p = files w p"
  by (simp add: main_files save_data_files split: sum.splits prod.splits)

section \<open>The example run\<close>

lemma length_demo_bits: "length (demo_bits m n) = n"
  by (simp add: demo_bits_def)

lemma demo_generate:
  assumes "files w (lit ''in.smi'') = Some (TextFile demo_text)"
  shows "fst (generate_fingerprints demo_rdkit (lit ''in.smi'') w) =
     Inr ([ConvertToNumpyArray (demo_bits (lit ''CCO'') 1024) (np_zeros [1]),
           ConvertToNumpyArray (demo_bits (lit ''CC'') 1024) (np_zeros [1])],
          [encode_ascii_ignore (lit ''CCO''), encode_ascii_ignore (lit ''CC'')],
          [encode_ascii_ignore (lit ''ethanol''), encode_ascii_ignore (lit ''methane'')])"
  using assms
  by (simp add: generate_fingerprints_fst demo_text_def demo_rdkit_def
      process_line_def str_strip_def isspace_def lit_def Let_def)

lemma demo_np_array:
  "np_array [ConvertToNumpyArray (demo_bits (lit ''CCO'') 1024) (np_zeros [1]),
             ConvertToNumpyArray (demo_bits (lit ''CC'') 1024) (np_zeros [1])] Float32 =
     Inr \<lparr>dtype = Float32, shape = [2, 1024],
          data = map (\<lambda>b. if b then 1 else 0) (demo_bits (lit ''CCO'') 1024) @
                 map (\<lambda>b. if b then 1 else 0) (demo_bits (lit ''CC'') 1024)\<rparr>"
  by (simp add: np_array_def ConvertToNumpyArray_def length_demo_bits)

lemma demo_no_nul:
  "0 \<notin> set (encode_ascii_ignore (lit ''CCO''))"
  "0 \<notin> set (encode_ascii_ignore (lit ''CC''))"
  "0 \<notin> set (encode_ascii_ignore (lit ''ethanol''))"
  "0 \<notin> set (encode_ascii_ignore (lit ''methane''))"
  by (simp_all add: encode_ascii_ignore_def lit_def)

lemma demo_main_returns:
  assumes "files w (lit ''in.smi'') = Some (TextFile demo_text)"
      and "\<not> unwritable w (lit ''out.h5'')" and "\<forall>name. \<not> write_fault w name"
  shows "fst (main demo_rdkit (lit ''in.smi'') (lit ''out.h5'') w) = Inr ()"
proof -
  have "fst (main demo_rdkit (lit ''in.smi'') (lit ''out.h5'') w) =
          (case np_array [ConvertToNumpyArray (demo_bits (lit ''CCO'') 1024) (np_zeros [1]),
                          ConvertToNumpyArray (demo_bits (lit ''CC'') 1024) (np_zeros [1])] Float32 of
             Inl e \<Rightarrow> Inl e
           | Inr arr \<Rightarrow>
               fst (save_data arr
                      [encode_ascii_ignore (lit ''CCO''), encode_ascii_ignore (lit ''CC'')]
                      [encode_ascii_ignore (lit ''ethanol''), encode_ascii_ignore (lit ''methane'')]
                      (lit ''out.h5'') w))"
    by (simp only: main_fst demo_generate[OF assms(1)] sum.case prod.case)
  also have "\<dots> = Inr ()"
    using assms(2,3) by (simp only: demo_np_array sum.case) (simp add: save_data_fst demo_no_nul)
  finally show ?thesis .
qed

section \<open>Stacking the fingerprints\<close>

lemma fingerprint_of_Some:
  assumes "fingerprint_of rd line = Some arr"
  shows "\<exists>mol fp. GetMorganFingerprintAsBitVect rd mol 3 1024 = Inr fp \<and>
           dtype arr = Float64 \<and> shape arr = [length fp] \<and>
           data arr = map (\<lambda>b. if b then 1 else 0) fp"
proof -
  from assms obtain mol fp where fp: "GetMorganFingerprintAsBitVect rd mol 3 1024 = Inr fp"
    and arr: "arr = ConvertToNumpyArray fp (np_zeros [1])"
    by (auto simp: fingerprint_of_def split: sum.splits option.splits)
  have "dtype arr = Float64 \<and> shape arr = [length fp] \<and>
        data arr = map (\<lambda>b. if b then 1 else 0) fp"
    by (simp add: arr ConvertToNumpyArray_def np_zeros_def)
  with fp show ?thesis by blast
qed

lemma np_array_rows:
  assumes "\<forall>a \<in> set lst. shape a = [k]"
  shows "np_array lst dt =
           Inr \<lparr>dtype = dt, shape = (if lst = [] then [0] else [length lst, k]),
                data = concat (map data lst)\<rparr>"
  using assms by (cases lst) (auto simp: np_array_def list_all_iff)

lemma concat_row:
  assumes "\<forall>x \<in> set xs. length x = k" and "i < length xs"
  shows "take k (drop (i * k) (concat xs)) = xs ! i"
  using assms
proof (induction xs arbitrary: i)
  case Nil
  then show ?case by simp
next
  case (Cons x xs)
  show ?case
  proof (cases i)
    case 0
    then show ?thesis using Cons.prems by simp
  next
    case (Suc j)
    then show ?thesis using Cons by simp
  qed
qed

lemma length_concat_rows:
  "\<forall>x \<in> set xs. length x = k \<Longrightarrow> length (concat xs) = length xs * k"
  by (induction xs) auto

text \<open>
  C1. When \<open>generate_fingerprints\<close> returns, the input is a text file and the three
  lists have one entry for each line after the first that is accepted (two tokens at
  least, and a molecule for the first), in the order of these lines: entry \<open>i\<close> of each
  list comes from the \<open>i\<close>-th accepted line.
\<close>

theorem columns_aligned:
  assumes "generate_fingerprints rd infile w = (Inr (fps, smis, names), w')"
  shows "\<exists>c. files w infile = Some (TextFile c) \<and>
           (let recs = filter (accepted rd) (drop 1 (file_lines c)) in
              length fps = length recs \<and> length smis = length recs \<and>
              length names = length recs \<and>
              (\<forall>i < length recs.
                 Some (fps ! i) = fingerprint_of rd (recs ! i) \<and>
                 smis ! i = encode_ascii_ignore (tokens (recs ! i) ! 0) \<and>
                 names ! i = encode_ascii_ignore (tokens (recs ! i) ! 1)))"
proof -
  have "fst (generate_fingerprints rd infile w) = Inr (fps, smis, names)"
    using assms by simp
  then obtain c where c: "files w infile = Some (TextFile c)"
    and loop: "for_lines rd (drop 1 (file_lines c)) ([], [], []) = Inr (fps, smis, names)"
    by (auto simp: generate_fingerprints_fst split: option.splits content.splits)
  define recs where "recs = filter (accepted rd) (drop 1 (file_lines c))"
  from for_lines_columns[OF loop]
  have f: "map Some fps = map (fingerprint_of rd) recs"
    and s: "smis = map (\<lambda>l. encode_ascii_ignore (tokens l ! 0)) recs"
    and n: "names = map (\<lambda>l. encode_ascii_ignore (tokens l ! 1)) recs"
    by (simp_all add: recs_def)
  have lf: "length fps = length recs"
    using arg_cong[OF f, of length] by simp
  have "Some (fps ! i) = fingerprint_of rd (recs ! i)" if "i < length recs" for i
    using arg_cong[OF f, of "\<lambda>xs. xs ! i"] that lf by simp
  then have "length fps = length recs \<and> length smis = length recs \<and>
             length names = length recs \<and>
             (\<forall>i < length recs.
                Some (fps ! i) = fingerprint_of rd (recs ! i) \<and>
                smis ! i = encode_ascii_ignore (tokens (recs ! i) ! 0) \<and>
                names ! i = encode_ascii_ignore (tokens (recs ! i) ! 1))"
    using lf s n by simp
  then show ?thesis
    unfolding Let_def recs_def using c by blast
qed

theorem columns_aligned_witness:
  "fst (generate_fingerprints demo_rdkit (lit ''in.smi'') (demo_world demo_text)) =
     Inr ([ConvertToNumpyArray (demo_bits (lit ''CCO'') 1024) (np_zeros [1]),
           ConvertToNumpyArray (demo_bits (lit ''CC'') 1024) (np_zeros [1])],
          [encode_ascii_ignore (lit ''CCO''), encode_ascii_ignore (lit ''CC'')],
          [encode_ascii_ignore (lit ''ethanol''), encode_ascii_ignore (lit ''methane'')]) \<and>
   length (filter (accepted demo_rdkit) (drop 1 (file_lines demo_text))) = 2"
proof -
  let ?g = "generate_fingerprints demo_rdkit (lit ''in.smi'') (demo_world demo_text)"
  let ?cols = "([ConvertToNumpyArray (demo_bits (lit ''CCO'') 1024) (np_zeros [1]),
           ConvertToNumpyArray (demo_bits (lit ''CC'') 1024) (np_zeros [1])],
          [encode_ascii_ignore (lit ''CCO''), encode_ascii_ignore (lit ''CC'')],
          [encode_ascii_ignore (lit ''ethanol''), encode_ascii_ignore (lit ''methane'')])"
  have fst: "fst ?g = Inr ?cols"
    by (simp add: generate_fingerprints_fst demo_world_def demo_text_def demo_rdkit_def
        process_line_def str_strip_def isspace_def lit_def Let_def)
  then have eq: "?g = (Inr ?cols, snd ?g)"
    by (simp add: prod_eq_iff)
  from columns_aligned[OF eq] show ?thesis
    using fst by (auto simp: demo_world_def Let_def)
qed

text \<open>
  C2, as the code has it. Let the toolkit return 1024 bits for a 1024-bit fingerprint.
  After a run that returns, the output holds the three columns for the \<open>N\<close> accepted
  records: \<open>fp_list\<close> is a float32 array whose row \<open>i\<close> is the fingerprint of record
  \<open>i\<close>, of shape \<open>(N, 1024)\<close> when \<open>N > 0\<close>; for \<open>N = 0\<close> the array made from the empty
  list is one-dimensional, of shape \<open>(0,)\<close>. The two string columns have shape \<open>(N, 1)\<close>.
\<close>

theorem fp_list_shape:
  assumes "main rd infile out w = (Inr u, w')"
      and "\<forall>mol fp. GetMorganFingerprintAsBitVect rd mol 3 1024 = Inr fp \<longrightarrow> length fp = 1024"
  shows "\<exists>c smis names arr.
           files w infile = Some (TextFile c) \<and>
           files w' out =
             Some (H5File [(''fp_list'', NumData arr),
                           (''smiles_list'', VlenData [length smis, 1] smis),
                           (''name_list'', VlenData [length names, 1] names)]) \<and>
           (let recs = filter (accepted rd) (drop 1 (file_lines c)); N = length recs in
              length smis = N \<and> length names = N \<and> dtype arr = Float32 \<and>
              shape arr = (if N = 0 then [0] else [N, 1024]) \<and>
              length (data arr) = N * 1024 \<and>
              (\<forall>i < N. \<exists>row. fingerprint_of rd (recs ! i) = Some row \<and>
                          take 1024 (drop (i * 1024) (data arr)) = data row))"
proof -
  have ret: "fst (main rd infile out w) = Inr ()" and w': "w' = snd (main rd infile out w)"
    using assms(1) by simp_all
  from ret obtain fps smis names arr
    where g: "fst (generate_fingerprints rd infile w) = Inr (fps, smis, names)"
      and a: "np_array fps Float32 = Inr arr"
      and sv: "fst (save_data arr smis names out w) = Inr ()"
    by (auto simp: main_fst split: sum.splits prod.splits)
  from g obtain c where c: "files w infile = Some (TextFile c)"
    and loop: "for_lines rd (drop 1 (file_lines c)) ([], [], []) = Inr (fps, smis, names)"
    by (auto simp: generate_fingerprints_fst split: option.splits content.splits)
  define recs where "recs = filter (accepted rd) (drop 1 (file_lines c))"
  from for_lines_columns[OF loop]
  have f: "map Some fps = map (fingerprint_of rd) recs"
    and s: "smis = map (\<lambda>l. encode_ascii_ignore (tokens l ! 0)) recs"
    and n: "names = map (\<lambda>l. encode_ascii_ignore (tokens l ! 1)) recs"
    by (simp_all add: recs_def)
  have lf: "length fps = length recs"
    using arg_cong[OF f, of length] by simp
  have row: "fingerprint_of rd (recs ! i) = Some (fps ! i)" if "i < length recs" for i
    using arg_cong[OF f, of "\<lambda>xs. xs ! i"] that lf by simp
  have sh: "shape b = [1024] \<and> length (data b) = 1024" if "b \<in> set fps" for b
  proof -
    from that obtain i where i: "i < length fps" and b: "b = fps ! i"
      by (auto simp: in_set_conv_nth)
    from fingerprint_of_Some[OF row[OF i[unfolded lf]]] assms(2) show ?thesis
      by (auto simp: b)
  qed
  have arr: "arr = \<lparr>dtype = Float32, shape = (if fps = [] then [0] else [length fps, 1024]),
                    data = concat (map data fps)\<rparr>"
    using np_array_rows[of fps 1024 Float32] sh a by simp
  have len: "length (data arr) = length recs * 1024"
    using length_concat_rows[of "map data fps" 1024] sh by (simp add: arr lf)
  have rows: "take 1024 (drop (i * 1024) (data arr)) = data (fps ! i)" if "i < length recs" for i
    using concat_row[of "map data fps" 1024 i] sh that lf by (simp add: arr)
  have out: "files w' out =
               Some (H5File [(''fp_list'', NumData arr),
                             (''smiles_list'', VlenData [length smis, 1] smis),
                             (''name_list'', VlenData [length names, 1] names)])"
    using sv by (simp add: w' main_files g a save_data_files save_data_fst split: if_splits)
  have body: "length smis = length recs \<and> length names = length recs \<and> dtype arr = Float32 \<and>
              shape arr = (if length recs = 0 then [0] else [length recs, 1024]) \<and>
              length (data arr) = length recs * 1024 \<and>
              (\<forall>i < length recs. \<exists>row. fingerprint_of rd (recs ! i) = Some row \<and>
                          take 1024 (drop (i * 1024) (data arr)) = data row)"
    using s n len row rows lf by (auto simp: arr)
  show ?thesis
    unfolding Let_def using c out body unfolding recs_def by blast
qed

theorem fp_list_shape_witness:
  "files (snd (main demo_rdkit (lit ''in.smi'') (lit ''out.h5'') (demo_world demo_text)))
     (lit ''out.h5'') =
   Some (H5File [(''fp_list'', NumData
                    \<lparr>dtype = Float32, shape = [2, 1024],
                     data = map (\<lambda>b. if b then 1 else 0) (demo_bits (lit ''CCO'') 1024) @
                            map (\<lambda>b. if b then 1 else 0) (demo_bits (lit ''CC'') 1024)\<rparr>),
                 (''smiles_list'', VlenData [2, 1]
                    [encode_ascii_ignore (lit ''CCO''), encode_ascii_ignore (lit ''CC'')]),
                 (''name_list'', VlenData [2, 1]
                    [encode_ascii_ignore (lit ''ethanol''), encode_ascii_ignore (lit ''methane'')])])"
proof -
  let ?w = "demo_world demo_text"
  let ?m = "main demo_rdkit (lit ''in.smi'') (lit ''out.h5'') ?w"
  have inp: "files ?w (lit ''in.smi'') = Some (TextFile demo_text)"
    by (simp add: demo_world_def)
  have "fst ?m = Inr ()"
    by (rule demo_main_returns) (simp_all add: demo_world_def)
  then have e: "?m = (Inr (), snd ?m)"
    by (simp add: prod_eq_iff)
  have bits: "\<forall>mol fp. GetMorganFingerprintAsBitVect demo_rdkit mol 3 1024 = Inr fp \<longrightarrow>
                length fp = 1024"
    by (auto simp: demo_rdkit_def length_demo_bits)
  have files: "files (snd ?m) (lit ''out.h5'') =
     Some (H5File [(''fp_list'', NumData
                    \<lparr>dtype = Float32, shape = [2, 1024],
                     data = map (\<lambda>b. if b then 1 else 0) (demo_bits (lit ''CCO'') 1024) @
                            map (\<lambda>b. if b then 1 else 0) (demo_bits (lit ''CC'') 1024)\<rparr>),
                 (''smiles_list'', VlenData [2, 1]
                    [encode_ascii_ignore (lit ''CCO''), encode_ascii_ignore (lit ''CC'')]),
                 (''name_list'', VlenData [2, 1]
                    [encode_ascii_ignore (lit ''ethanol''), encode_ascii_ignore (lit ''methane'')])])"
    by (simp only: main_files demo_generate[OF inp] sum.case prod.case demo_np_array)
       (simp add: save_data_files demo_world_def demo_no_nul)
  from fp_list_shape[OF e bits] show ?thesis
    using files by simp
qed

theorem header_only_shape_counterexample:
  "fst (main demo_rdkit (lit ''in.smi'') (lit ''out.h5'') (demo_world (lit ''header'' @ [10]))) =
     Inr () \<and>
   files (snd (main demo_rdkit (lit ''in.smi'') (lit ''out.h5'')
                 (demo_world (lit ''header'' @ [10])))) (lit ''out.h5'') =
     Some (H5File [(''fp_list'', NumData \<lparr>dtype = Float32, shape = [0], data = []\<rparr>),
                   (''smiles_list'', VlenData [0, 1] []),
                   (''name_list'', VlenData [0, 1] [])]) \<and>
   [0 :: nat] \<noteq> [0, 1024]"
  by (simp add: main_fst main_files generate_fingerprints_fst np_array_def save_data_fst
      save_data_files demo_world_def lit_def)

text \<open>
  C3, as the code has it. The stripped line is cut at single spaces (code point 32),
  not at whitespace in general. A stripped line without a space is one token and is
  skipped, whatever other whitespace (a tab) it holds. Otherwise the structure encoding
  is what precedes the first space and the identifier is what lies between the first
  space and the next one (or the end); nothing after that is looked at.
\<close>

theorem process_line_single_space_fields:
  "process_line rd line (f, s, n) =
     (let stripped = str_strip line;
          smiles = takeWhile (\<lambda>c. c \<noteq> 32) stripped;
          name = takeWhile (\<lambda>c. c \<noteq> 32) (drop (Suc (length smiles)) stripped)
      in if 32 \<notin> set stripped then Inr (f, s, n)
         else (case MolFromSmiles rd smiles of
                 Inl e \<Rightarrow> Inl e
               | Inr None \<Rightarrow> Inr (f, s, n)
               | Inr (Some mol) \<Rightarrow>
                   (case GetMorganFingerprintAsBitVect rd mol 3 1024 of
                      Inl e \<Rightarrow> Inl e
                    | Inr fp \<Rightarrow>
                        Inr (f @ [ConvertToNumpyArray fp (np_zeros [1])],
                             s @ [encode_ascii_ignore smiles],
                             n @ [encode_ascii_ignore name]))))"
proof (cases "32 \<in> set (str_strip line)")
  case False
  then have "length (str_split (str_strip line) 32) < 2"
    by (simp add: str_split_no_sep)
  then show ?thesis
    using False by (simp add: process_line_skip Let_def)
next
  case True
  define a where "a = takeWhile (\<lambda>c. c \<noteq> 32) (str_strip line)"
  define r where "r = dropWhile (\<lambda>c. c \<noteq> 32) (str_strip line)"
  have ar: "str_strip line = a @ r"
    by (simp add: a_def r_def)
  have "r \<noteq> []"
    using True by (auto simp: r_def dropWhile_eq_Nil_conv)
  moreover have "hd r = 32"
    using True hd_dropWhile[of "\<lambda>c. c \<noteq> 32" "str_strip line"]
    by (auto simp: r_def dropWhile_eq_Nil_conv)
  ultimately obtain b where r: "r = 32 # b"
    by (cases r) auto
  have na: "32 \<notin> set a"
    by (auto simp: a_def dest: set_takeWhileD)
  have b: "drop (Suc (length a)) (str_strip line) = b"
    by (simp add: ar r)
  have smi: "takeWhile (\<lambda>c. c \<noteq> 32) (str_strip line) = a"
    by (simp add: a_def)
  have "process_line rd line (f, s, n) =
     (case MolFromSmiles rd a of
        Inl e \<Rightarrow> Inl e
      | Inr None \<Rightarrow> Inr (f, s, n)
      | Inr (Some mol) \<Rightarrow>
          (case GetMorganFingerprintAsBitVect rd mol 3 1024 of
             Inl e \<Rightarrow> Inl e
           | Inr fp \<Rightarrow>
               Inr (f @ [ConvertToNumpyArray fp (np_zeros [1])],
                    s @ [encode_ascii_ignore a],
                    n @ [encode_ascii_ignore (takeWhile (\<lambda>c. c \<noteq> 32) b)])))"
    by (rule process_line_fields[OF ar[unfolded r] na])
  then show ?thesis
    unfolding Let_def smi b using True by simp
qed


theorem process_line_single_space_fields_witness:
  "process_line demo_rdkit (lit ''CCO ethanol extra'' @ [10]) ([], [], []) =
     Inr ([ConvertToNumpyArray (demo_bits (lit ''CCO'') 1024) (np_zeros [1])],
          [encode_ascii_ignore (lit ''CCO'')], [encode_ascii_ignore (lit ''ethanol'')])"
  using process_line_single_space_fields[of demo_rdkit "lit ''CCO ethanol extra'' @ [10]" "[]" "[]" "[]"]
  by (simp add: demo_rdkit_def lit_def str_strip_def isspace_def Let_def)


theorem tab_separated_counterexample:
  "\<not> 2 \<le> length (tokens (lit ''CCO'' @ [9] @ lit ''ethanol'' @ [10])) \<and>
   process_line demo_rdkit (lit ''CCO'' @ [9] @ lit ''ethanol'' @ [10]) ([], [], []) =
     Inr ([], [], []) \<and>
   isspace 9 \<and>
   process_line demo_rdkit (lit ''CCO ethanol'' @ [10]) ([], [], []) \<noteq> Inr ([], [], [])"
  by (simp add: tokens_def process_line_def demo_rdkit_def lit_def str_strip_def isspace_def
      Let_def)

text \<open>
  C4, as the code has it. The writer has no \<open>try\<close> and no \<open>with\<close>: it closes the handle
  after the third column is written and nowhere else. When the file cannot be created
  no handle was opened; when it returns the handle is closed; when a later step
  raises, the error leaves \<open>save_data\<close> with the handle still open.
\<close>

theorem save_data_closes_on_success_only:
  "handles (snd (save_data arr s n out w)) =
     (if fst (save_data arr s n out w) = Inr () \<or> unwritable w out then handles w
      else (out, WriteH5) # handles w)"
  by (auto simp: save_data_handles)

theorem save_data_closes_on_success_only_witness:
  "handles (snd (save_data (np_zeros [0]) [] [] (lit ''out.h5'') (demo_world []))) = [] \<and>
   fst (save_data (np_zeros [0]) [[97]] [[99, 0]] (lit ''out.h5'') (demo_world [])) =
     Inl ValueError \<and>
   handles (snd (save_data (np_zeros [0]) [[97]] [[99, 0]] (lit ''out.h5'') (demo_world []))) =
     [(lit ''out.h5'', WriteH5)]"
  using save_data_closes_on_success_only[of "np_zeros [0]" "[]" "[]" "lit ''out.h5''"
      "demo_world []"]
    save_data_closes_on_success_only[of "np_zeros [0]" "[[97]]" "[[99, 0]]" "lit ''out.h5''"
      "demo_world []"]
  by (simp add: save_data_fst demo_world_def)

theorem save_data_handle_left_open_counterexample:
  "fst (save_data (np_zeros [0]) [] [] (lit ''out.h5'')
          (demo_fault_world ''smiles_list'')) = Inl OSError \<and>
   (lit ''out.h5'', WriteH5) \<in>
     set (handles (snd (save_data (np_zeros [0]) [] [] (lit ''out.h5'')
            (demo_fault_world ''smiles_list''))))"
  by (simp add: save_data_fst save_data_handles demo_world_def demo_fault_world_def)

text \<open>
  C5. The lines processed are the lines of the file without the first, in order. A
  file of no line or of one line gives empty columns; and for a content that starts
  with a line \<open>h\<close>, the result is that of the loop on the lines that follow, whatever
  \<open>h\<close> holds.
\<close>

theorem header_line_skipped:
  assumes "files w infile = Some (TextFile c)"
  shows "fst (generate_fingerprints rd infile w) = for_lines rd (tl (file_lines c)) ([], [], []) \<and>
         (length (file_lines c) \<le> 1 \<longrightarrow>
            fst (generate_fingerprints rd infile w) = Inr ([], [], [])) \<and>
         (10 \<notin> set h \<and> c = h @ 10 # rest \<longrightarrow>
            fst (generate_fingerprints rd infile w) = for_lines rd (file_lines rest) ([], [], []))"
proof -
  have g: "fst (generate_fingerprints rd infile w) = for_lines rd (tl (file_lines c)) ([], [], [])"
    using assms by (simp add: generate_fingerprints_fst drop_Suc)
  have short: "tl (file_lines c) = []" if "length (file_lines c) \<le> 1"
    using that by (cases "file_lines c") auto
  have hdr: "tl (file_lines c) = file_lines rest" if "10 \<notin> set h" "c = h @ 10 # rest"
    using that by (simp add: file_lines_header)
  show ?thesis
    using g short hdr by auto
qed

theorem header_line_skipped_witness:
  "fst (generate_fingerprints demo_rdkit (lit ''in.smi'') (demo_world (lit ''CCO ethanol'' @ [10]))) =
     Inr ([], [], []) \<and>
   fst (generate_fingerprints demo_rdkit (lit ''in.smi'')
          (demo_world (lit ''CCO ethanol'' @ [10] @ lit ''CC methane'' @ [10]))) =
     for_lines demo_rdkit [lit ''CC methane'' @ [10]] ([], [], [])"
  using header_line_skipped[of "demo_world (lit ''CCO ethanol'' @ [10])" "lit ''in.smi''"
      "lit ''CCO ethanol'' @ [10]" demo_rdkit "lit ''CCO ethanol''" "[]"]
    header_line_skipped[of "demo_world (lit ''CCO ethanol'' @ [10] @ lit ''CC methane'' @ [10])"
      "lit ''in.smi''" "lit ''CCO ethanol'' @ [10] @ lit ''CC methane'' @ [10]" demo_rdkit
      "lit ''CCO ethanol''" "lit ''CC methane'' @ [10]"]
  by (simp add: demo_world_def lit_def)

text \<open>
  C6. For a record that is stored, the two byte strings are the structure token and the
  identifier token with the code points of 128 and above left out and the others kept
  in order, one byte each; the encoding is not a source of errors.
\<close>

theorem stored_strings_ascii_ignore:
  assumes "2 \<le> length (tokens line)"
      and "MolFromSmiles rd (tokens line ! 0) = Inr (Some mol)"
      and "GetMorganFingerprintAsBitVect rd mol 3 1024 = Inr fp"
  shows "\<exists>smi name.
           process_line rd line (f, s, n) =
             Inr (f @ [ConvertToNumpyArray fp (np_zeros [1])], s @ [smi], n @ [name]) \<and>
           map unat smi = filter (\<lambda>c. c < 128) (tokens line ! 0) \<and>
           map unat name = filter (\<lambda>c. c < 128) (tokens line ! 1)"
  using process_line_accepted[OF assms] by (simp add: unat_encode_ascii_ignore)


theorem stored_strings_ascii_ignore_witness:
  "\<exists>smi name.
     process_line demo_rdkit (lit ''C'' @ [8364] @ lit ''O caf'' @ [233, 10]) ([], [], []) =
       Inr ([ConvertToNumpyArray (demo_bits (lit ''C'' @ [8364] @ lit ''O'') 1024) (np_zeros [1])],
            [smi], [name]) \<and>
     map unat smi = [67, 79] \<and> map unat name = [99, 97, 102]"
  using stored_strings_ascii_ignore[of "lit ''C'' @ [8364] @ lit ''O caf'' @ [233, 10]"
      demo_rdkit "lit ''C'' @ [8364] @ lit ''O''" "demo_bits (lit ''C'' @ [8364] @ lit ''O'') 1024"
      "[]" "[]" "[]"]
  by (simp add: tokens_def demo_rdkit_def lit_def str_strip_def isspace_def)

text \<open>
  C7. Started with a number of arguments other than two, the script prints the usage
  line with its own name to standard output and exits with status 1; nothing else of
  the world changes, so no file is created and no handle opened. With two arguments it
  runs \<open>main\<close> on them.
\<close>

theorem usage_on_wrong_argument_count:
  "(length args \<noteq> 2 \<longrightarrow>
      script rd (prog # args) w =
        (Exit 1, w\<lparr>stdout := stdout w @
                     [Line (lit ''usage: '' @ prog @ lit '' infile.smi outfile.h5'')]\<rparr>) \<and>
      files (snd (script rd (prog # args) w)) = files w \<and>
      handles (snd (script rd (prog # args) w)) = handles w) \<and>
   script rd [prog, a, b] w =
     (case main rd a b w of
        (Inl e, w') \<Rightarrow> (Traceback e, w')
      | (Inr u, w') \<Rightarrow> (Exit 0, w'))"
  by (simp add: script_def py_print_def)

theorem usage_on_wrong_argument_count_witness:
  "script demo_rdkit [lit ''gen_fp.py'', lit ''in.smi''] (demo_world demo_text) =
     (Exit 1, (demo_world demo_text)
        \<lparr>stdout := [Line (lit ''usage: gen_fp.py infile.smi outfile.h5'')]\<rparr>) \<and>
   files (snd (script demo_rdkit [lit ''gen_fp.py'', lit ''in.smi'', lit ''out.h5'', lit ''x'']
                 (demo_world demo_text))) (lit ''out.h5'') = None"
  using usage_on_wrong_argument_count[of "[lit ''in.smi'']" demo_rdkit "lit ''gen_fp.py''"
      "demo_world demo_text"]
    usage_on_wrong_argument_count[of "[lit ''in.smi'', lit ''out.h5'', lit ''x'']" demo_rdkit
      "lit ''gen_fp.py''" "demo_world demo_text"]
  by (simp add: demo_world_def lit_def)

text \<open>
  C8. The dataset that a successful run leaves at the output path is determined by the
  content of the input file (and the toolkit): two runs in worlds that agree on the
  input file, and may differ in everything else (clock, earlier output, other files),
  leave the same dataset.
\<close>

theorem output_determined_by_input:
  assumes "files w1 infile = files w2 infile"
      and "main rd infile out w1 = (Inr u1, w1')"
      and "main rd infile out w2 = (Inr u2, w2')"
  shows "files w1' out = files w2' out"
proof -
  have g: "fst (generate_fingerprints rd infile w1) = fst (generate_fingerprints rd infile w2)"
    using assms(1) by (simp add: generate_fingerprints_fst)
  have r1: "fst (main rd infile out w1) = Inr ()" and r2: "fst (main rd infile out w2) = Inr ()"
    using assms(2,3) by simp_all
  have "files (snd (main rd infile out w1)) out = files (snd (main rd infile out w2)) out"
    using r1 r2 g
    by (auto simp: main_fst main_files save_data_fst save_data_files
        split: sum.splits prod.splits if_splits)
  then show ?thesis
    using assms(2,3) by simp
qed

theorem output_determined_by_input_witness:
  "fst (main demo_rdkit (lit ''in.smi'') (lit ''out.h5'') (demo_world demo_text)) = Inr () \<and>
   files (snd (main demo_rdkit (lit ''in.smi'') (lit ''out.h5'') (demo_world demo_text)))
     (lit ''out.h5'') =
   files (snd (main demo_rdkit (lit ''in.smi'') (lit ''out.h5'')
                 (snd (main demo_rdkit (lit ''in.smi'') (lit ''out.h5'') (demo_world demo_text)))))
     (lit ''out.h5'')"
proof -
  let ?w1 = "demo_world demo_text"
  let ?m1 = "main demo_rdkit (lit ''in.smi'') (lit ''out.h5'') ?w1"
  let ?w2 = "snd ?m1"
  let ?m2 = "main demo_rdkit (lit ''in.smi'') (lit ''out.h5'') ?w2"
  have in1: "files ?w1 (lit ''in.smi'') = Some (TextFile demo_text)"
    by (simp add: demo_world_def)
  have r1: "fst ?m1 = Inr ()"
    by (rule demo_main_returns) (simp_all add: demo_world_def)
  have in2: "files ?w2 (lit ''in.smi'') = Some (TextFile demo_text)"
    using in1 by (simp add: main_files_other lit_def)
  have r2: "fst ?m2 = Inr ()"
    by (rule demo_main_returns) (simp_all add: in2 main_env, simp_all add: demo_world_def)
  have e1: "?m1 = (Inr (), ?w2)" and e2: "?m2 = (Inr (), snd ?m2)"
    using r1 r2 by (simp_all add: prod_eq_iff)
  show ?thesis
    using output_determined_by_input[OF _ e1 e2] in1 in2 r1 by simp
qed

text \<open>
  C9. A line whose two fields are separated by two or more spaces has the empty string
  as its token 1: when the first field parses, the record is stored with the empty
  byte string as identifier, and the second field is a later token that is not read.
\<close>

theorem double_space_empty_identifier:
  assumes "a \<noteq> []" and "list_all (\<lambda>c. \<not> isspace c) a"
      and "b \<noteq> []" and "list_all (\<lambda>c. \<not> isspace c) b"
      and "2 \<le> k"
      and "MolFromSmiles rd a = Inr (Some mol)"
      and "GetMorganFingerprintAsBitVect rd mol 3 1024 = Inr fp"
  shows "tokens (a @ replicate k 32 @ b @ [10]) ! 0 = a \<and>
         tokens (a @ replicate k 32 @ b @ [10]) ! 1 = [] \<and>
         last (tokens (a @ replicate k 32 @ b @ [10])) = b \<and>
         process_line rd (a @ replicate k 32 @ b @ [10]) (f, s, n) =
           Inr (f @ [ConvertToNumpyArray fp (np_zeros [1])],
                s @ [encode_ascii_ignore a], n @ [[]])"
proof -
  let ?line = "a @ replicate k 32 @ b @ [10]"
  obtain j where "k = 2 + j"
    using le_Suc_ex[OF \<open>2 \<le> k\<close>] by blast
  then have k: "k = Suc (Suc j)"
    by simp
  have sp: "isspace 32"
    by (simp add: isspace_def)
  have na: "32 \<notin> set a" and nb: "32 \<notin> set b"
    using assms(2,4) sp unfolding list_all_iff by blast+
  have st: "str_strip ?line = a @ 32 # 32 # replicate j 32 @ b"
    using str_strip_two_fields[OF assms(1-4), of k] by (simp add: k)
  have rest: "str_split (replicate j 32 @ b) 32 = replicate j [] @ [b]"
    by (induction j) (simp_all add: str_split_no_sep nb)
  have toks: "tokens ?line = a # [] # replicate j [] @ [b]"
    using str_split_append[OF na, of "32 # replicate j 32 @ b"]
    by (simp add: tokens_def st rest)
  have pl: "process_line rd ?line (f, s, n) =
              Inr (f @ [ConvertToNumpyArray fp (np_zeros [1])],
                   s @ [encode_ascii_ignore a], n @ [[]])"
    using process_line_fields[OF st na, of rd f s n] assms(6,7)
    by (simp add: encode_ascii_ignore_def)
  show ?thesis
    using toks pl by simp
qed


theorem double_space_empty_identifier_witness:
  "tokens (lit ''CCO  ethanol'' @ [10]) ! 1 = [] \<and>
   process_line demo_rdkit (lit ''CCO  ethanol'' @ [10]) ([], [], []) =
     Inr ([ConvertToNumpyArray (demo_bits (lit ''CCO'') 1024) (np_zeros [1])],
          [encode_ascii_ignore (lit ''CCO'')], [[]])"
  using double_space_empty_identifier[of "lit ''CCO''" "lit ''ethanol''" "Suc (Suc 0)" demo_rdkit
      "lit ''CCO''"
      "demo_bits (lit ''CCO'') 1024" "[]" "[]" "[]"]
  by (simp add: demo_rdkit_def lit_def isspace_def)

text \<open>
  C10. The output is opened by \<open>save_data\<close>, which \<open>main\<close> reaches last. When
  \<open>generate_fingerprints\<close> raises (the input cannot be opened or read, or the toolkit
  raises on a record) or \<open>make_np_array\<close> raises, \<open>main\<close> ends with that error, no file
  of the world has changed, and the only handle that may have been opened is the one
  of the input.
\<close>

theorem no_output_before_write_phase:
  assumes "fst (generate_fingerprints rd infile w) = Inl e \<or>
           (\<exists>fps smis names.
              fst (generate_fingerprints rd infile w) = Inr (fps, smis, names) \<and>
              fst (make_np_array fps Float32 (snd (generate_fingerprints rd infile w))) = Inl e)"
  shows "fst (main rd infile out w) = Inl e \<and>
         files (snd (main rd infile out w)) = files w \<and>
         set (handles (snd (main rd infile out w))) \<subseteq> insert (infile, ReadText) (set (handles w))"
  using assms
  by (auto simp: main_fst main_files main_handles make_np_array_fst generate_fingerprints_handles
      split: option.splits)

theorem no_output_before_write_phase_witness:
  "fst (main demo_rdkit (lit ''missing.smi'') (lit ''out.h5'') (demo_world demo_text)) =
     Inl FileNotFoundError \<and>
   files (snd (main demo_rdkit (lit ''missing.smi'') (lit ''out.h5'') (demo_world demo_text)))
     (lit ''out.h5'') = None \<and>
   fst (main (demo_rdkit\<lparr>GetMorganFingerprintAsBitVect := (\<lambda>m r n. Inl RuntimeError)\<rparr>)
          (lit ''in.smi'') (lit ''out.h5'') (demo_world demo_text)) = Inl RuntimeError \<and>
   files (snd (main (demo_rdkit\<lparr>GetMorganFingerprintAsBitVect := (\<lambda>m r n. Inl RuntimeError)\<rparr>)
          (lit ''in.smi'') (lit ''out.h5'') (demo_world demo_text))) (lit ''out.h5'') = None \<and>
   fst (main (demo_rdkit\<lparr>GetMorganFingerprintAsBitVect := (\<lambda>m r n. Inr (demo_bits m (length m)))\<rparr>)
          (lit ''in.smi'') (lit ''out.h5'') (demo_world demo_text)) = Inl ValueError \<and>
   files (snd (main (demo_rdkit\<lparr>GetMorganFingerprintAsBitVect := (\<lambda>m r n. Inr (demo_bits m (length m)))\<rparr>)
          (lit ''in.smi'') (lit ''out.h5'') (demo_world demo_text))) (lit ''out.h5'') = None"
proof -
  let ?w = "demo_world demo_text"
  let ?rd1 = "demo_rdkit\<lparr>GetMorganFingerprintAsBitVect := (\<lambda>m r n. Inl RuntimeError)\<rparr>"
  let ?rd2 = "demo_rdkit\<lparr>GetMorganFingerprintAsBitVect := (\<lambda>m r n. Inr (demo_bits m (length m)))\<rparr>"
  have none: "files ?w (lit ''out.h5'') = None"
    by (simp add: demo_world_def lit_def)
  have a: "fst (generate_fingerprints demo_rdkit (lit ''missing.smi'') ?w) = Inl FileNotFoundError"
    by (simp add: generate_fingerprints_fst demo_world_def lit_def)
  have b: "fst (generate_fingerprints ?rd1 (lit ''in.smi'') ?w) = Inl RuntimeError"
    by (simp add: generate_fingerprints_fst demo_world_def demo_text_def demo_rdkit_def
        process_line_def str_strip_def isspace_def lit_def Let_def)
  have c: "fst (generate_fingerprints ?rd2 (lit ''in.smi'') ?w) =
             Inr ([ConvertToNumpyArray (demo_bits (lit ''CCO'') (length (lit ''CCO''))) (np_zeros [1]),
                   ConvertToNumpyArray (demo_bits (lit ''CC'') (length (lit ''CC''))) (np_zeros [1])],
                  [encode_ascii_ignore (lit ''CCO''), encode_ascii_ignore (lit ''CC'')],
                  [encode_ascii_ignore (lit ''ethanol''), encode_ascii_ignore (lit ''methane'')])"
    by (simp add: generate_fingerprints_fst demo_world_def demo_text_def demo_rdkit_def
        process_line_def str_strip_def isspace_def lit_def Let_def)
  have d: "fst (make_np_array [ConvertToNumpyArray (demo_bits (lit ''CCO'') (length (lit ''CCO''))) (np_zeros [1]),
                   ConvertToNumpyArray (demo_bits (lit ''CC'') (length (lit ''CC''))) (np_zeros [1])] Float32
                 (snd (generate_fingerprints ?rd2 (lit ''in.smi'') ?w))) = Inl ValueError"
    by (simp add: make_np_array_fst np_array_def ConvertToNumpyArray_def demo_bits_def lit_def)
  show ?thesis
    using no_output_before_write_phase[of demo_rdkit "lit ''missing.smi''" ?w FileNotFoundError
        "lit ''out.h5''"]
      no_output_before_write_phase[of ?rd1 "lit ''in.smi''" ?w RuntimeError "lit ''out.h5''"]
      no_output_before_write_phase[of ?rd2 "lit ''in.smi''" ?w ValueError "lit ''out.h5''"]
      a b c d none
    by simp
qed

end
